theory Spec2Isabelle
  imports Main
begin

section \<open>Byte strings and the string helpers of the Go standard library\<close>

text \<open>
  A Go \<^verbatim>\<open>string\<close> and a \<^verbatim>\<open>[]byte\<close> are both sequences of bytes; they are
  modelled as \<^typ>\<open>string\<close> (a list of 8-bit characters). A Go \<^verbatim>\<open>error\<close> is
  modelled by its message.
\<close>

type_synonym bytes = string
type_synonym error = string

text \<open>\<^verbatim>\<open>strings.HasPrefix\<close>, \<^verbatim>\<open>strings.HasSuffix\<close>, \<^verbatim>\<open>strings.TrimPrefix\<close>.\<close>

definition HasPrefix :: "string \<Rightarrow> string \<Rightarrow> bool" where
  "HasPrefix s p = (length p \<le> length s \<and> take (length p) s = p)"

definition HasSuffix :: "string \<Rightarrow> string \<Rightarrow> bool" where
  "HasSuffix s x = (length x \<le> length s \<and> drop (length s - length x) s = x)"

definition TrimPrefix :: "string \<Rightarrow> string \<Rightarrow> string" where
  "TrimPrefix s p = (if HasPrefix s p then drop (length p) s else s)"

text \<open>\<^verbatim>\<open>strings.Contains s sub\<close>: \<^verbatim>\<open>sub\<close> occurs at some position of \<^verbatim>\<open>s\<close>.\<close>

fun Contains :: "string \<Rightarrow> string \<Rightarrow> bool" where
  "Contains [] sub = (sub = [])"
| "Contains (c # cs) sub = (HasPrefix (c # cs) sub \<or> Contains cs sub)"

text \<open>
  \<^verbatim>\<open>strings.ToLower\<close>, on the ASCII letters. The only use in the program compares the
  result with the ASCII prefix \<^verbatim>\<open>http\<close>, and no rune outside ASCII has h, t or p as its
  lower case, so the bytes beyond ASCII are left as they are.
\<close>

definition ToLower_char :: "char \<Rightarrow> char" where
  "ToLower_char c =
     (case map_of (zip ''ABCDEFGHIJKLMNOPQRSTUVWXYZ'' ''abcdefghijklmnopqrstuvwxyz'') c of
        Some l \<Rightarrow> l
      | None \<Rightarrow> c)"

definition ToLower :: "string \<Rightarrow> string" where
  "ToLower s = map ToLower_char s"

text \<open>\<^verbatim>\<open>strings.ReplaceAll s old new\<close> for a one-byte \<^verbatim>\<open>old\<close>.\<close>

definition ReplaceAll :: "string \<Rightarrow> char \<Rightarrow> string \<Rightarrow> string" where
  "ReplaceAll s old new = concat (map (\<lambda>c. if c = old then new else [c]) s)"

text \<open>
  \<^verbatim>\<open>path.Base\<close>: the empty path gives a dot; trailing slashes are removed; what
  follows the last slash is kept; a path of slashes only gives one slash.
\<close>

definition path_Base :: "string \<Rightarrow> string" where
  "path_Base p =
     (if p = [] then ''.''
      else
        let p1 = rev (dropWhile (\<lambda>c. c = CHR ''/'') (rev p));
            p2 = rev (takeWhile (\<lambda>c. c \<noteq> CHR ''/'') (rev p1))
        in if p2 = [] then ''/'' else p2)"

text \<open>
  \<^verbatim>\<open>strings.TrimSpace\<close> removes leading and trailing Unicode white space. In UTF-8
  the white-space runes are the six ASCII ones, U+0085 and U+00A0 (two bytes), and
  U+1680, U+2000 to U+200A, U+2028, U+2029, U+202F, U+205F and U+3000 (three bytes).
  \<^verbatim>\<open>space_width s\<close> is the byte length of the white-space rune \<^verbatim>\<open>s\<close> starts with
  (0 when it starts with none), and \<^verbatim>\<open>space_width_rev\<close> is the same for the rune a
  reversed string ends with.
\<close>

definition ascii_space :: "char \<Rightarrow> bool" where
  "ascii_space c = (c \<in> set [CHR 0x09, CHR 0x0A, CHR 0x0B, CHR 0x0C, CHR 0x0D, CHR 0x20])"

definition e2_80_space :: "char \<Rightarrow> bool" where
  "e2_80_space c =
     (c \<in> set [CHR 0x80, CHR 0x81, CHR 0x82, CHR 0x83, CHR 0x84, CHR 0x85, CHR 0x86,
               CHR 0x87, CHR 0x88, CHR 0x89, CHR 0x8A, CHR 0xA8, CHR 0xA9, CHR 0xAF])"

fun space_width :: "string \<Rightarrow> nat" where
  "space_width [] = 0"
| "space_width [a] = (if ascii_space a then 1 else 0)"
| "space_width [a, b] =
     (if ascii_space a then 1
      else if a = CHR 0xC2 \<and> (b = CHR 0x85 \<or> b = CHR 0xA0) then 2 else 0)"
| "space_width (a # b # c # rest) =
     (if ascii_space a then 1
      else if a = CHR 0xC2 \<and> (b = CHR 0x85 \<or> b = CHR 0xA0) then 2
      else if a = CHR 0xE1 \<and> b = CHR 0x9A \<and> c = CHR 0x80 then 3
      else if a = CHR 0xE2 \<and> b = CHR 0x80 \<and> e2_80_space c then 3
      else if a = CHR 0xE2 \<and> b = CHR 0x81 \<and> c = CHR 0x9F then 3
      else if a = CHR 0xE3 \<and> b = CHR 0x80 \<and> c = CHR 0x80 then 3
      else 0)"

fun space_width_rev :: "string \<Rightarrow> nat" where
  "space_width_rev [] = 0"
| "space_width_rev [a] = (if ascii_space a then 1 else 0)"
| "space_width_rev [b, a] =
     (if ascii_space b then 1
      else if a = CHR 0xC2 \<and> (b = CHR 0x85 \<or> b = CHR 0xA0) then 2 else 0)"
| "space_width_rev (c # b # a # rest) =
     (if ascii_space c then 1
      else if b = CHR 0xC2 \<and> (c = CHR 0x85 \<or> c = CHR 0xA0) then 2
      else if a = CHR 0xE1 \<and> b = CHR 0x9A \<and> c = CHR 0x80 then 3
      else if a = CHR 0xE2 \<and> b = CHR 0x80 \<and> e2_80_space c then 3
      else if a = CHR 0xE2 \<and> b = CHR 0x81 \<and> c = CHR 0x9F then 3
      else if a = CHR 0xE3 \<and> b = CHR 0x80 \<and> c = CHR 0x80 then 3
      else 0)"

function TrimLeft_space :: "string \<Rightarrow> string" where
  "TrimLeft_space s =
     (if space_width s = 0 \<or> length s < space_width s then s
      else TrimLeft_space (drop (space_width s) s))"
  by pat_completeness auto
termination
  by (relation "measure length") auto

function TrimRight_space_rev :: "string \<Rightarrow> string" where
  "TrimRight_space_rev r =
     (if space_width_rev r = 0 \<or> length r < space_width_rev r then r
      else TrimRight_space_rev (drop (space_width_rev r) r))"
  by pat_completeness auto
termination
  by (relation "measure length") auto

declare TrimLeft_space.simps [simp del]
declare TrimRight_space_rev.simps [simp del]

definition TrimSpace :: "string \<Rightarrow> string" where
  "TrimSpace s = rev (TrimRight_space_rev (rev (TrimLeft_space s)))"

section \<open>Line scanning\<close>

text \<open>
  \<^verbatim>\<open>bufio.Scanner\<close> with its default split function \<^verbatim>\<open>ScanLines\<close>: the input is cut
  at every line feed, a last unterminated line is a token when it is not empty, and
  one trailing carriage return is dropped from each token. The scanner's buffer is at
  most 64 KiB: at the first line of 65536 bytes or more \<^verbatim>\<open>Scan\<close> returns false and the
  loop over the lines ends.
\<close>

fun split_lines :: "string \<Rightarrow> string \<Rightarrow> string list" where
  "split_lines acc [] = (if acc = [] then [] else [rev acc])"
| "split_lines acc (c # cs) =
     (if c = CHR 0x0A then rev acc # split_lines [] cs else split_lines (c # acc) cs)"

definition dropCR :: "string \<Rightarrow> string" where
  "dropCR l = (if l \<noteq> [] \<and> last l = CHR 0x0D then butlast l else l)"

definition MaxScanTokenSize :: nat where
  "MaxScanTokenSize = 65536"

definition scan_lines :: "bytes \<Rightarrow> string list" where
  "scan_lines data =
     map dropCR (takeWhile (\<lambda>l. length l < MaxScanTokenSize) (split_lines [] data))"

section \<open>Opening a package: the choice between URL and path\<close>

datatype acquisition = ViaURL | ViaPath

text \<open>
  \<^verbatim>\<open>OpenPackageFile\<close> calls \<^verbatim>\<open>openPackageURL\<close> in its first branch and
  \<^verbatim>\<open>openPackagePath\<close> in the other; \<^verbatim>\<open>OpenPackageFile_route\<close> is the branch taken.
\<close>

definition OpenPackageFile_route :: "string \<Rightarrow> acquisition" where
  "OpenPackageFile_route uri =
     (if Contains uri ''://'' \<and> HasPrefix (ToLower uri) ''http'' then ViaURL else ViaPath)"

section \<open>Normalisation of member names\<close>

text \<open>The assignment to \<^verbatim>\<open>header.Name\<close> at the head of the dispatch in \<^verbatim>\<open>Read\<close>.\<close>

definition normalize_name :: "string \<Rightarrow> string" where
  "normalize_name name = path_Base (ReplaceAll name (CHR ''/'') [])"

section \<open>Panics\<close>

text \<open>
  A Go function either returns or panics. \<^verbatim>\<open>panic(err)\<close> carries an error,
  \<^verbatim>\<open>panic(fmt.Sprintf(...))\<close> a message, and the run time panics on a nil pointer and
  on a slice bound out of range.
\<close>

datatype panic = PanicError error | PanicMessage string | RuntimePanic string

datatype 'a outcome = Done 'a | Panic panic

definition then_do :: "'a outcome \<Rightarrow> ('a \<Rightarrow> 'b outcome) \<Rightarrow> 'b outcome" where
  "then_do m f = (case m of Panic p \<Rightarrow> Panic p | Done x \<Rightarrow> f x)"

text \<open>\<^verbatim>\<open>PackageFileReader.checkErr\<close>.\<close>

definition checkErr :: "error option \<Rightarrow> bool outcome" where
  "checkErr err = (case err of Some e \<Rightarrow> Panic (PanicError e) | None \<Rightarrow> Done True)"

section \<open>The libraries and the file system\<close>

text \<open>
  The decompressors, the tar reader, the hash functions and the file system are outside
  the program; they are parameters of the model, collected in one record.
  \<^item> \<^verbatim>\<open>gzip.NewReader\<close> and \<^verbatim>\<open>xz.NewReader\<close> may fail when the reader is opened, and
    \<^verbatim>\<open>ioutil.ReadAll\<close> may fail afterwards; \<^verbatim>\<open>bzip2.NewReader\<close> and \<^verbatim>\<open>lzma.NewReader\<close>
    return no error, so only reading can fail.
  \<^item> \<^verbatim>\<open>tar_stream\<close> gives the results of the successive calls of \<^verbatim>\<open>Next\<close> on a tar
    reader, each entry with the result of copying its content; the end of the list is
    \<^verbatim>\<open>io.EOF\<close>.
  \<^item> \<^verbatim>\<open>hex_digest\<close> is the hexadecimal digest of a byte sequence.
  \<^item> \<^verbatim>\<open>read_file\<close> is the result of opening a path and copying the file.
\<close>

datatype decoded = OpenFailed error | ReadFailed error | Decoded bytes

record tar_Header =
  Name :: string
  Typeflag :: char
  Size :: int
  ModTime :: int
  Uname :: string
  Gname :: string
  Linkname :: string
  FileInfo_Mode :: nat

datatype tar_next = TarEntry tar_Header "error + bytes" | TarError error

datatype hash_alg = md5_New | sha1_New | sha256_New

record env =
  gzip_decode :: "bytes \<Rightarrow> decoded"
  xz_decode :: "bytes \<Rightarrow> decoded"
  bzip2_decode :: "bytes \<Rightarrow> error + bytes"
  lzma_decode :: "bytes \<Rightarrow> error + bytes"
  tar_stream :: "bytes \<Rightarrow> tar_next list"
  hex_digest :: "hash_alg \<Rightarrow> bytes \<Rightarrow> string"
  read_file :: "string \<Rightarrow> error + bytes"

text \<open>The regular-file type flag \<^verbatim>\<open>tar.TypeReg\<close>.\<close>

definition TypeReg :: char where
  "TypeReg = CHR ''0''"

text \<open>
  \<^verbatim>\<open>tar.NewReader\<close> on a buffer: on an empty buffer the first \<^verbatim>\<open>Next\<close> is
  \<^verbatim>\<open>io.EOF\<close>.
\<close>

definition tar_NewReader :: "env \<Rightarrow> bytes \<Rightarrow> tar_next list" where
  "tar_NewReader E buf = (if buf = [] then [] else tar_stream E buf)"

section \<open>The checksum object\<close>

definition HASH_MD5 :: int where "HASH_MD5 = 0"
definition HASH_SHA1 :: int where "HASH_SHA1 = 1"
definition HASH_SHA256 :: int where "HASH_SHA256 = 2"

record Checksum =
  cs_path :: string
  cs_payload :: "bytes option"
  cs_hash :: int

definition NewChecksum :: "string \<Rightarrow> Checksum" where
  "NewChecksum p = \<lparr>cs_path = p, cs_payload = None, cs_hash = 0\<rparr>"

definition NewBytesChecksum :: "bytes \<Rightarrow> Checksum" where
  "NewBytesChecksum data = \<lparr>cs_path = [], cs_payload = Some data, cs_hash = 0\<rparr>"

text \<open>Decimal digits, for \<^verbatim>\<open>fmt.Sprintf("%d", ...)\<close>.\<close>

function decimal :: "nat \<Rightarrow> string" where
  "decimal n =
     (if n < 10 then [''0123456789'' ! n]
      else decimal (n div 10) @ [''0123456789'' ! (n mod 10)])"
  by pat_completeness auto
termination
  by (relation "measure id") auto

declare decimal.simps [simp del]

definition Sprintf_d :: "int \<Rightarrow> string" where
  "Sprintf_d i = (if i < 0 then CHR ''-'' # decimal (nat (- i)) else decimal (nat i))"

text \<open>\<^verbatim>\<open>Checksum.SetHash\<close>.\<close>

definition Checksum_SetHash :: "Checksum \<Rightarrow> int \<Rightarrow> Checksum outcome" where
  "Checksum_SetHash cs h =
     (if h = HASH_MD5 \<or> h = HASH_SHA1 \<or> h = HASH_SHA256 then Done (cs\<lparr>cs_hash := h\<rparr>)
      else Panic (PanicMessage (''Unknown hash: '' @ Sprintf_d h)))"

text \<open>
  \<^verbatim>\<open>Checksum.compute\<close>: the digest of the payload when there is one, of the file at
  the path otherwise. The receiver is not assigned to.
\<close>

definition compute :: "env \<Rightarrow> Checksum \<Rightarrow> hash_alg \<Rightarrow> error + string" where
  "compute E cs csType =
     (case cs_payload cs of
        Some data \<Rightarrow> Inr (hex_digest E csType data)
      | None \<Rightarrow>
          if cs_path cs = [] then Inl ''No path has been defined''
          else (case read_file E (cs_path cs) of
                  Inl e \<Rightarrow> Inl e
                | Inr data \<Rightarrow> Inr (hex_digest E csType data)))"

definition panic_on_error :: "error + string \<Rightarrow> string outcome" where
  "panic_on_error r = (case r of Inl e \<Rightarrow> Panic (PanicError e) | Inr s \<Rightarrow> Done s)"

definition SHA256 :: "env \<Rightarrow> Checksum \<Rightarrow> string outcome" where
  "SHA256 E cs = panic_on_error (compute E cs sha256_New)"

definition SHA1 :: "env \<Rightarrow> Checksum \<Rightarrow> string outcome" where
  "SHA1 E cs = panic_on_error (compute E cs sha1_New)"

definition MD5 :: "env \<Rightarrow> Checksum \<Rightarrow> string outcome" where
  "MD5 E cs = panic_on_error (compute E cs md5_New)"

definition Sum :: "env \<Rightarrow> Checksum \<Rightarrow> string outcome" where
  "Sum E cs =
     (if cs_hash cs = HASH_MD5 then MD5 E cs
      else if cs_hash cs = HASH_SHA1 then SHA1 E cs
      else if cs_hash cs = HASH_SHA256 then SHA256 E cs
      else MD5 E cs)"

section \<open>The package\<close>

text \<open>
  The control file object and the four descriptor objects (symbols, shlibs, triggers,
  conffiles) are defined outside this source file, which only calls them. Each is
  modelled by the sequence of the calls made on it since its construction:
  \<^verbatim>\<open>setField\<close> and \<^verbatim>\<open>addToField\<close> with their arguments for the control file, and
  the byte sequences given to \<^verbatim>\<open>parse\<close> for the others.
\<close>

datatype control_call = setField "string list" | addToField string string

record FileInfo =
  fi_name :: string
  fi_mode :: nat
  fi_size :: int
  fi_modTime :: int
  fi_owner :: string
  fi_group :: string
  fi_linkname :: string

record PackageFile =
  path :: string
  fileSize :: nat
  fileTime :: int
  debVersion :: string
  preinst :: string
  prerm :: string
  postinst :: string
  postrm :: string
  checksum :: "Checksum option"
  control :: "control_call list"
  symbols :: "bytes list"
  shlibs :: "bytes list"
  triggers :: "bytes list"
  conffiles :: "bytes list"
  gpgbuilder :: string
  files :: "FileInfo list"
  fileMd5Checksums :: "string \<rightharpoonup> string"
  fileCalculatedChecksums :: "string \<rightharpoonup> string"

definition NewPackageFile :: PackageFile where
  "NewPackageFile =
     \<lparr>path = [], fileSize = 0, fileTime = 0, debVersion = [],
      preinst = [], prerm = [], postinst = [], postrm = [],
      checksum = None, control = [], symbols = [], shlibs = [], triggers = [],
      conffiles = [], gpgbuilder = [], files = [],
      fileMd5Checksums = Map.empty, fileCalculatedChecksums = Map.empty\<rparr>"

definition setPath :: "string \<Rightarrow> PackageFile \<Rightarrow> PackageFile" where
  "setPath p c = c\<lparr>path := p, checksum := Some (NewChecksum p)\<rparr>"

text \<open>Reading a Go map at a missing key gives the zero value, the empty string.\<close>

definition map_index :: "(string \<rightharpoonup> string) \<Rightarrow> string \<Rightarrow> string" where
  "map_index m k = (case m k of Some v \<Rightarrow> v | None \<Rightarrow> [])"

definition GetFileMd5Sums :: "PackageFile \<Rightarrow> string \<Rightarrow> string" where
  "GetFileMd5Sums c p = map_index (fileMd5Checksums c) (TrimPrefix p ''./'')"

definition GetFileChecksum :: "PackageFile \<Rightarrow> string \<Rightarrow> string" where
  "GetFileChecksum c p = map_index (fileCalculatedChecksums c) p"

definition GetPackageChecksum :: "PackageFile \<Rightarrow> Checksum option" where
  "GetPackageChecksum c = checksum c"

definition Files :: "PackageFile \<Rightarrow> FileInfo list" where
  "Files c = files c"

definition SetCalculatedChecksum :: "string \<Rightarrow> string \<Rightarrow> PackageFile \<Rightarrow> PackageFile" where
  "SetCalculatedChecksum p s c =
     (if s \<noteq> [] then c\<lparr>fileCalculatedChecksums := (fileCalculatedChecksums c)(p \<mapsto> s)\<rparr>
      else c)"

text \<open>\<^verbatim>\<open>addFileInfo\<close>: the record \<^verbatim>\<open>info\<close> it fills, and the append.\<close>

definition new_FileInfo :: "tar_Header \<Rightarrow> FileInfo" where
  "new_FileInfo header =
     \<lparr>fi_name = Name header, fi_mode = FileInfo_Mode header, fi_size = Size header,
      fi_modTime = ModTime header, fi_owner = Uname header, fi_group = Gname header,
      fi_linkname = Linkname header\<rparr>"

definition addFileInfo :: "tar_Header \<Rightarrow> PackageFile \<Rightarrow> PackageFile" where
  "addFileInfo header c = c\<lparr>files := files c @ [new_FileInfo header]\<rparr>"

subsection \<open>The md5sums descriptor\<close>

text \<open>
  The regular expression \<^verbatim>\<open>\s+|\t+\<close> matches every maximal run of the bytes
  tab, line feed, form feed, carriage return and space; \<^verbatim>\<open>ReplaceAllString\<close> puts one
  space for each run. The flag says whether the previous byte was in a run.
\<close>

definition re_space :: "char \<Rightarrow> bool" where
  "re_space c = (c \<in> set [CHR 0x09, CHR 0x0A, CHR 0x0C, CHR 0x0D, CHR 0x20])"

fun sfx_replace :: "bool \<Rightarrow> string \<Rightarrow> string" where
  "sfx_replace in_run [] = []"
| "sfx_replace in_run (c # cs) =
     (if re_space c then (if in_run then sfx_replace True cs else CHR '' '' # sfx_replace True cs)
      else c # sfx_replace False cs)"

definition sfx_ReplaceAllString :: "string \<Rightarrow> string" where
  "sfx_ReplaceAllString s = sfx_replace False s"

text \<open>\<^verbatim>\<open>strings.Split s sep\<close> for a one-byte separator.\<close>

fun split_at :: "char \<Rightarrow> string \<Rightarrow> string \<Rightarrow> string list" where
  "split_at sep acc [] = [rev acc]"
| "split_at sep acc (c # cs) =
     (if c = sep then rev acc # split_at sep [] cs else split_at sep (c # acc) cs)"

definition Split :: "string \<Rightarrow> char \<Rightarrow> string list" where
  "Split s sep = split_at sep [] s"

text \<open>One turn of the loop of \<^verbatim>\<open>parseMd5Sums\<close>, and the loop over the scanned lines.\<close>

definition md5sums_line :: "string \<Rightarrow> PackageFile \<Rightarrow> PackageFile" where
  "md5sums_line text c =
     (let csF = Split (sfx_ReplaceAllString text) (CHR '' '')
      in if length csF = 2 \<and> length (csF ! 0) = 32
         then c\<lparr>fileMd5Checksums := (fileMd5Checksums c)(csF ! 1 \<mapsto> csF ! 0)\<rparr>
         else c)"

fun md5sums_lines :: "string list \<Rightarrow> PackageFile \<Rightarrow> PackageFile" where
  "md5sums_lines [] c = c"
| "md5sums_lines (l # ls) c = md5sums_lines ls (md5sums_line l c)"

definition parseMd5Sums :: "bytes \<Rightarrow> PackageFile \<Rightarrow> PackageFile" where
  "parseMd5Sums data c = md5sums_lines (scan_lines data) c"

subsection \<open>The control file\<close>

text \<open>\<^verbatim>\<open>strings.SplitN s sep 2\<close> for a one-byte separator: at most two pieces.\<close>

definition SplitN2 :: "string \<Rightarrow> char \<Rightarrow> string list" where
  "SplitN2 s sep =
     (if sep \<in> set s
      then [takeWhile (\<lambda>c. c \<noteq> sep) s, tl (dropWhile (\<lambda>c. c \<noteq> sep) s)]
      else [s])"

text \<open>
  The loop of \<^verbatim>\<open>parseControlFile\<close> over the scanned lines; \<^verbatim>\<open>currentName\<close> is the
  loop's variable of that name and the last argument is the control file object.
\<close>

fun control_lines :: "string list \<Rightarrow> string \<Rightarrow> control_call list \<Rightarrow> control_call list" where
  "control_lines [] currentName ctl = ctl"
| "control_lines (line # ls) currentName ctl =
     (if HasPrefix (TrimSpace line) ''#'' then control_lines ls currentName ctl
      else if HasPrefix line '' '' \<or> HasPrefix line [CHR 0x09]
      then control_lines ls currentName (ctl @ [addToField currentName line])
      else
        let namedata = SplitN2 line (CHR '':'')
        in control_lines ls (namedata ! 0) (ctl @ [setField namedata]))"

definition parseControlFile :: "bytes \<Rightarrow> PackageFile \<Rightarrow> PackageFile" where
  "parseControlFile data c = c\<lparr>control := control_lines (scan_lines data) [] (control c)\<rparr>"

subsection \<open>The other descriptors\<close>

definition parseSymbolsFile :: "bytes \<Rightarrow> PackageFile \<Rightarrow> PackageFile" where
  "parseSymbolsFile data c = c\<lparr>symbols := symbols c @ [data]\<rparr>"

definition parseSharedLibsFile :: "bytes \<Rightarrow> PackageFile \<Rightarrow> PackageFile" where
  "parseSharedLibsFile data c = c\<lparr>shlibs := shlibs c @ [data]\<rparr>"

definition parseTriggersFile :: "bytes \<Rightarrow> PackageFile \<Rightarrow> PackageFile" where
  "parseTriggersFile data c = c\<lparr>triggers := triggers c @ [data]\<rparr>"

definition parseConffilesFile :: "bytes \<Rightarrow> PackageFile \<Rightarrow> PackageFile" where
  "parseConffilesFile data c = c\<lparr>conffiles := conffiles c @ [data]\<rparr>"

section \<open>Decompression\<close>

text \<open>
  The four decompressing methods take the writer (here the content of the buffer written
  to) and the compressed bytes, and give the writer afterwards with the error returned.
  \<^verbatim>\<open>unGzip\<close> and \<^verbatim>\<open>unXz\<close> panic themselves when the reader cannot be opened.
\<close>

definition unGzip :: "env \<Rightarrow> bytes \<Rightarrow> bytes \<Rightarrow> (bytes \<times> error option) outcome" where
  "unGzip E writer data =
     (case gzip_decode E data of
        OpenFailed e \<Rightarrow> Panic (PanicError e)
      | ReadFailed e \<Rightarrow> Done (writer, Some e)
      | Decoded d \<Rightarrow> Done (writer @ d, None))"

definition unXz :: "env \<Rightarrow> bytes \<Rightarrow> bytes \<Rightarrow> (bytes \<times> error option) outcome" where
  "unXz E writer data =
     (case xz_decode E data of
        OpenFailed e \<Rightarrow> Panic (PanicError e)
      | ReadFailed e \<Rightarrow> Done (writer, Some e)
      | Decoded d \<Rightarrow> Done (writer @ d, None))"

definition unBzip :: "env \<Rightarrow> bytes \<Rightarrow> bytes \<Rightarrow> (bytes \<times> error option) outcome" where
  "unBzip E writer data =
     (case bzip2_decode E data of
        Inl e \<Rightarrow> Done (writer, Some e)
      | Inr d \<Rightarrow> Done (writer @ d, None))"

definition unLzma :: "env \<Rightarrow> bytes \<Rightarrow> bytes \<Rightarrow> (bytes \<times> error option) outcome" where
  "unLzma E writer data =
     (case lzma_decode E data of
        Inl e \<Rightarrow> Done (writer, Some e)
      | Inr d \<Rightarrow> Done (writer @ d, None))"

text \<open>
  \<^verbatim>\<open>checked\<close> is \<^verbatim>\<open>pfr.checkErr(...)\<close> applied to the error of a decompressing
  method; what is left is the buffer \<^verbatim>\<open>trbuf\<close>.
\<close>

definition checked :: "(bytes \<times> error option) outcome \<Rightarrow> bytes outcome" where
  "checked r = then_do r (\<lambda>(trbuf, err). then_do (checkErr err) (\<lambda>_. Done trbuf))"

text \<open>
  \<^verbatim>\<open>decompressTar\<close>, up to the buffer \<^verbatim>\<open>trbuf\<close> that the tar reader it returns is
  made on. The second argument is the name in the header, the third the result of copying
  the member out of the archive.
\<close>

definition decompressTar :: "env \<Rightarrow> string \<Rightarrow> error + bytes \<Rightarrow> bytes outcome" where
  "decompressTar E header_Name member =
     (case member of
        Inl cperr \<Rightarrow> Panic (PanicError cperr)
      | Inr gzbuf \<Rightarrow>
          if HasSuffix header_Name ''.gz'' then checked (unGzip E [] gzbuf)
          else if HasSuffix header_Name ''.xz'' then checked (unXz E [] gzbuf)
          else if HasSuffix header_Name ''.bz2'' then checked (unBzip E [] gzbuf)
          else if HasSuffix header_Name ''.lzma'' then checked (unLzma E [] gzbuf)
          else Done [])"

section \<open>The members of the archive\<close>

text \<open>
  The archive is the sequence of the results of \<^verbatim>\<open>Next\<close> on the ar reader: a header
  name with the result of copying the member's content, or an error; the end of the
  sequence is \<^verbatim>\<open>io.EOF\<close>.
\<close>

datatype ar_next = ArEntry string "error + bytes" | ArError error

definition processGpgBuilderFile :: "error + bytes \<Rightarrow> PackageFile \<Rightarrow> PackageFile outcome" where
  "processGpgBuilderFile member c =
     (case member of
        Inl err \<Rightarrow> Panic (PanicError err)
      | Inr buff \<Rightarrow> Done (c\<lparr>gpgbuilder := TrimSpace buff\<rparr>))"

definition processDebianBinaryFile :: "error + bytes \<Rightarrow> PackageFile \<Rightarrow> PackageFile outcome" where
  "processDebianBinaryFile member c =
     (case member of
        Inl err \<Rightarrow> Panic (PanicError err)
      | Inr buff \<Rightarrow> Done (c\<lparr>debVersion := TrimSpace buff\<rparr>))"

text \<open>The \<^verbatim>\<open>switch\<close> of \<^verbatim>\<open>processControlFile\<close> on the name without its first two bytes.\<close>

definition control_switch :: "string \<Rightarrow> bytes \<Rightarrow> PackageFile \<Rightarrow> PackageFile" where
  "control_switch nm databuf c =
     (if nm = ''postinst'' then c\<lparr>postinst := databuf\<rparr>
      else if nm = ''postrm'' then c\<lparr>postrm := databuf\<rparr>
      else if nm = ''preinst'' then c\<lparr>preinst := databuf\<rparr>
      else if nm = ''prerm'' then c\<lparr>prerm := databuf\<rparr>
      else if nm = ''md5sums'' then parseMd5Sums databuf c
      else if nm = ''control'' then parseControlFile databuf c
      else if nm = ''symbols'' then parseSymbolsFile databuf c
      else if nm = ''shlibs'' then parseSharedLibsFile databuf c
      else if nm = ''triggers'' then parseTriggersFile databuf c
      else if nm = ''conffiles'' then parseConffilesFile databuf c
      else c)"

text \<open>
  The loop of \<^verbatim>\<open>processControlFile\<close> over the tar entries. An error of \<^verbatim>\<open>Next\<close> or of
  the copy goes to \<^verbatim>\<open>checkErr\<close>; \<^verbatim>\<open>hdr.Name[2:]\<close> panics on a name shorter than two
  bytes.
\<close>

fun control_entries :: "tar_next list \<Rightarrow> PackageFile \<Rightarrow> PackageFile outcome" where
  "control_entries [] c = Done c"
| "control_entries (TarError err # rest) c = Panic (PanicError err)"
| "control_entries (TarEntry hdr content # rest) c =
     (if Typeflag hdr = TypeReg then
        (case content of
           Inl err \<Rightarrow> Panic (PanicError err)
         | Inr databuf \<Rightarrow>
             if length (Name hdr) < 2 then Panic (RuntimePanic ''slice bounds out of range'')
             else control_entries rest (control_switch (drop 2 (Name hdr)) databuf c))
      else control_entries rest c)"

definition processControlFile ::
  "env \<Rightarrow> string \<Rightarrow> error + bytes \<Rightarrow> PackageFile \<Rightarrow> PackageFile outcome" where
  "processControlFile E header_Name member c =
     then_do (decompressTar E header_Name member)
       (\<lambda>trbuf. control_entries (tar_NewReader E trbuf) c)"

text \<open>
  The loop of \<^verbatim>\<open>processDataFile\<close>. After an error of \<^verbatim>\<open>Next\<close> other than
  \<^verbatim>\<open>io.EOF\<close> the header is nil and \<^verbatim>\<open>*hdr\<close> panics. The checksum of a regular file
  is \<^verbatim>\<open>NewBytesChecksum(...).SetHash(pfr.hash).Sum()\<close>.
\<close>

fun data_entries :: "env \<Rightarrow> int \<Rightarrow> tar_next list \<Rightarrow> PackageFile \<Rightarrow> PackageFile outcome" where
  "data_entries E h [] c = Done c"
| "data_entries E h (TarError err # rest) c = Panic (RuntimePanic ''nil pointer dereference'')"
| "data_entries E h (TarEntry hdr content # rest) c =
     (if Typeflag hdr = TypeReg then
        (case content of
           Inl err \<Rightarrow> Panic (PanicError err)
         | Inr databuf \<Rightarrow>
             (case then_do (Checksum_SetHash (NewBytesChecksum databuf) h) (Sum E) of
                Panic p \<Rightarrow> Panic p
              | Done s \<Rightarrow>
                  data_entries E h rest (SetCalculatedChecksum (Name hdr) s (addFileInfo hdr c))))
      else data_entries E h rest (addFileInfo hdr c))"

definition processDataFile ::
  "env \<Rightarrow> bool \<Rightarrow> int \<Rightarrow> string \<Rightarrow> error + bytes \<Rightarrow> PackageFile \<Rightarrow> PackageFile outcome" where
  "processDataFile E mo h header_Name member c =
     (if mo then Done c
      else then_do (decompressTar E header_Name member)
             (\<lambda>trbuf. data_entries E h (tar_NewReader E trbuf) c))"

section \<open>The reader\<close>

record PackageFileReader =
  pkg :: PackageFile
  metaonly :: bool
  hash :: int

definition NewPackageFileReader :: PackageFileReader where
  "NewPackageFileReader = \<lparr>pkg = NewPackageFile, metaonly = True, hash = 0\<rparr>"

definition SetMetaonly :: "bool \<Rightarrow> PackageFileReader \<Rightarrow> PackageFileReader" where
  "SetMetaonly mo pfr = pfr\<lparr>metaonly := mo\<rparr>"

text \<open>\<^verbatim>\<open>PackageFileReader.SetHash\<close>.\<close>

definition SetHash :: "int \<Rightarrow> PackageFileReader \<Rightarrow> PackageFileReader" where
  "SetHash h pfr = pfr\<lparr>hash := h\<rparr>"

text \<open>
  The loop of \<^verbatim>\<open>Read\<close>: the name is normalised, then the member goes to the first
  branch whose test it passes, or to none.
\<close>

fun Read_loop :: "env \<Rightarrow> bool \<Rightarrow> int \<Rightarrow> ar_next list \<Rightarrow> PackageFile \<Rightarrow> PackageFile outcome" where
  "Read_loop E mo h [] c = Done c"
| "Read_loop E mo h (ArError err # rest) c = Panic (PanicError err)"
| "Read_loop E mo h (ArEntry nm member # rest) c =
     (let header_Name = normalize_name nm in
      if HasPrefix header_Name ''control.'' then
        (case processControlFile E header_Name member c of
           Panic p \<Rightarrow> Panic p
         | Done c' \<Rightarrow> Read_loop E mo h rest c')
      else if HasPrefix header_Name ''data.'' then
        (case processDataFile E mo h header_Name member c of
           Panic p \<Rightarrow> Panic p
         | Done c' \<Rightarrow> Read_loop E mo h rest c')
      else if header_Name = ''_gpgbuilder'' then
        (case processGpgBuilderFile member c of
           Panic p \<Rightarrow> Panic p
         | Done c' \<Rightarrow> Read_loop E mo h rest c')
      else if header_Name = ''debian-binary'' then
        (case processDebianBinaryFile member c of
           Panic p \<Rightarrow> Panic p
         | Done c' \<Rightarrow> Read_loop E mo h rest c')
      else Read_loop E mo h rest c)"

text \<open>\<^verbatim>\<open>Read\<close> returns the package and a nil error after the loop.\<close>

definition Read :: "env \<Rightarrow> PackageFileReader \<Rightarrow> ar_next list \<Rightarrow> (PackageFile \<times> error option) outcome" where
  "Read E pfr archive =
     (case Read_loop E (metaonly pfr) (hash pfr) archive (pkg pfr) of
        Panic p \<Rightarrow> Panic p
      | Done c \<Rightarrow> Done (c, None))"

record PackageOptions =
  MetaOnly :: bool
  Hash :: int
  RecalculateChecksums :: bool

text \<open>
  The expression \<^verbatim>\<open>NewPackageFileReader(...).SetMetaonly(opts.MetaOnly).SetHash(opts.Hash).Read()\<close>
  of \<^verbatim>\<open>openPackagePath\<close> and \<^verbatim>\<open>openPackageURL\<close>.
\<close>

definition read_with_options ::
  "env \<Rightarrow> PackageOptions \<Rightarrow> ar_next list \<Rightarrow> (PackageFile \<times> error option) outcome" where
  "read_with_options E opts archive =
     Read E (SetHash (Hash opts) (SetMetaonly (MetaOnly opts) NewPackageFileReader)) archive"

section \<open>Notions used in the statements\<close>

text \<open>
  The error with which the payload of a member fails to decode, when its name has one of
  the four compression suffixes and the decompressor for that suffix fails.
\<close>

definition decode_failure :: "env \<Rightarrow> string \<Rightarrow> bytes \<Rightarrow> error option" where
  "decode_failure E n d =
     (if HasSuffix n ''.gz'' then
        (case gzip_decode E d of OpenFailed e \<Rightarrow> Some e | ReadFailed e \<Rightarrow> Some e | Decoded x \<Rightarrow> None)
      else if HasSuffix n ''.xz'' then
        (case xz_decode E d of OpenFailed e \<Rightarrow> Some e | ReadFailed e \<Rightarrow> Some e | Decoded x \<Rightarrow> None)
      else if HasSuffix n ''.bz2'' then
        (case bzip2_decode E d of Inl e \<Rightarrow> Some e | Inr x \<Rightarrow> None)
      else if HasSuffix n ''.lzma'' then
        (case lzma_decode E d of Inl e \<Rightarrow> Some e | Inr x \<Rightarrow> None)
      else None)"

text \<open>The headers of the entries of a tar stream, up to its first error.\<close>

fun walked_headers :: "tar_next list \<Rightarrow> tar_Header list" where
  "walked_headers [] = []"
| "walked_headers (TarError err # rest) = []"
| "walked_headers (TarEntry hdr content # rest) = hdr # walked_headers rest"

text \<open>The fields of a line of the md5sums descriptor, as \<^verbatim>\<open>parseMd5Sums\<close> cuts it.\<close>

definition md5sums_fields :: "string \<Rightarrow> string list" where
  "md5sums_fields text = Split (sfx_ReplaceAllString text) (CHR '' '')"

text \<open>
  A small environment for the examples: a gzip whose streams start with \<^verbatim>\<open>GZ\<close>, an xz
  and an lzma that fail, a bzip2 that copies, and a tar stream \<^verbatim>\<open>name:content\<close> of one
  regular file.
\<close>

definition example_env :: env where
  "example_env =
     \<lparr>gzip_decode = (\<lambda>d. if HasPrefix d ''GZ'' then Decoded (drop 2 d)
                          else OpenFailed ''gzip: invalid header''),
      xz_decode = (\<lambda>d. ReadFailed ''xz: data is truncated or corrupt''),
      bzip2_decode = (\<lambda>d. Inr d),
      lzma_decode = (\<lambda>d. Inl ''lzma: corrupt stream''),
      tar_stream = (\<lambda>b. case SplitN2 b (CHR '':'') of
                           [n, content] \<Rightarrow>
                             [TarEntry \<lparr>Name = n, Typeflag = TypeReg, Size = int (length content),
                                        ModTime = 0, Uname = ''root'', Gname = ''root'',
                                        Linkname = [], FileInfo_Mode = 420\<rparr> (Inr content)]
                         | _ \<Rightarrow> [TarError ''archive/tar: invalid tar header'']),
      hex_digest = (\<lambda>alg b. case alg of
                              md5_New \<Rightarrow> replicate 32 (CHR ''0'')
                            | sha1_New \<Rightarrow> replicate 40 (CHR ''0'')
                            | sha256_New \<Rightarrow> replicate 64 (CHR ''0'')),
      read_file = (\<lambda>p. Inl ''open: no such file or directory'')\<rparr>"

section \<open>Facts about the string helpers\<close>

lemmas TrimSpace_eval =
  TrimSpace_def TrimLeft_space.simps TrimRight_space_rev.simps ascii_space_def

lemma HasPrefix_iff: "HasPrefix s p \<longleftrightarrow> (\<exists>r. s = p @ r)"
  unfolding HasPrefix_def
  by (metis append_eq_conv_conj append_take_drop_id length_append le_add1)

lemma Contains_iff: "Contains s sub \<longleftrightarrow> (\<exists>a b. s = a @ sub @ b)"
proof (induction s)
  case Nil
  then show ?case by auto
next
  case (Cons c cs)
  show ?case
  proof
    assume "Contains (c # cs) sub"
    then consider "HasPrefix (c # cs) sub" | "Contains cs sub" by auto
    then show "\<exists>a b. c # cs = a @ sub @ b"
    proof cases
      case 1
      then obtain r where "c # cs = sub @ r" by (auto simp: HasPrefix_iff)
      then have "c # cs = [] @ sub @ r" by simp
      then show ?thesis by blast
    next
      case 2
      then obtain a b where "cs = a @ sub @ b" using Cons.IH by blast
      then have "c # cs = (c # a) @ sub @ b" by simp
      then show ?thesis by blast
    qed
  next
    assume "\<exists>a b. c # cs = a @ sub @ b"
    then obtain a b where ab: "c # cs = a @ sub @ b" by blast
    show "Contains (c # cs) sub"
    proof (cases a)
      case Nil
      then have "HasPrefix (c # cs) sub" using ab by (auto simp: HasPrefix_iff)
      then show ?thesis by simp
    next
      case (Cons x xs)
      then have "cs = xs @ sub @ b" using ab by simp
      then have "Contains cs sub" using Cons.IH by blast
      then show ?thesis by simp
    qed
  qed
qed

section \<open>Opening by URL or by path\<close>

text \<open>
  Claim C10. \<^verbatim>\<open>OpenPackageFile\<close> takes the URL branch exactly when the argument contains
  \<^verbatim>\<open>://\<close> somewhere and its lower-cased form begins with \<^verbatim>\<open>http\<close>; every other
  argument takes the path branch, and so does \<^verbatim>\<open>ftp://host/pkg.deb\<close>.
\<close>

theorem OpenPackageFile_route_http:
  "(OpenPackageFile_route uri = ViaURL \<longleftrightarrow>
      (\<exists>a b. uri = a @ ''://'' @ b) \<and> (\<exists>r. ToLower uri = ''http'' @ r)) \<and>
   (OpenPackageFile_route uri = ViaPath \<longleftrightarrow>
      \<not> ((\<exists>a b. uri = a @ ''://'' @ b) \<and> (\<exists>r. ToLower uri = ''http'' @ r))) \<and>
   OpenPackageFile_route ''ftp://host/pkg.deb'' = ViaPath"
proof -
  have "OpenPackageFile_route ''ftp://host/pkg.deb'' = ViaPath"
    by (simp add: OpenPackageFile_route_def HasPrefix_def ToLower_def ToLower_char_def)
  then show ?thesis
    unfolding OpenPackageFile_route_def Contains_iff HasPrefix_iff by auto
qed

theorem OpenPackageFile_route_http_witness:
  "OpenPackageFile_route ''HTTPS://deb.example.org/p.deb'' = ViaURL \<and>
   OpenPackageFile_route ''/srv/http://p.deb'' = ViaPath \<and>
   OpenPackageFile_route ''httpd.deb'' = ViaPath"
proof -
  have a: "''HTTPS://deb.example.org/p.deb'' = ''HTTPS'' @ ''://'' @ ''deb.example.org/p.deb''"
    by simp
  have b: "ToLower ''HTTPS://deb.example.org/p.deb'' = ''http'' @ ''s://deb.example.org/p.deb''"
    by (simp add: ToLower_def ToLower_char_def)
  have c: "\<not> (\<exists>r. ToLower ''/srv/http://p.deb'' = ''http'' @ r)"
    by (simp add: ToLower_def ToLower_char_def)
  have d: "\<not> (\<exists>a b. ''httpd.deb'' = a @ ''://'' @ b)"
    using Contains_iff [of "''httpd.deb''" "''://''"] by (simp add: HasPrefix_def)
  show ?thesis
    using OpenPackageFile_route_http [of "''HTTPS://deb.example.org/p.deb''"]
      OpenPackageFile_route_http [of "''/srv/http://p.deb''"]
      OpenPackageFile_route_http [of "''httpd.deb''"] a b c d
    by blast
qed

section \<open>Normalisation of member names\<close>

text \<open>
  Claim C2 says that the name is cut down to its last path segment, so that
  \<^verbatim>\<open>dir/seg\<close> is dispatched as \<^verbatim>\<open>seg\<close>. The program removes every slash first and
  takes the base name of what is left, which has no segment to cut any more: the member
  \<^verbatim>\<open>dir/control.tar.gz\<close> becomes \<^verbatim>\<open>dircontrol.tar.gz\<close>, which does not begin with
  \<^verbatim>\<open>control.\<close>, and \<^verbatim>\<open>./control.tar.gz\<close> becomes \<^verbatim>\<open>.control.tar.gz\<close>. Only a
  trailing slash is handled as the claim says.
\<close>

theorem normalize_name_joins_segments:
  "normalize_name ''dir/control.tar.gz'' = ''dircontrol.tar.gz'' \<and>
   \<not> HasPrefix (normalize_name ''dir/control.tar.gz'') ''control.'' \<and>
   normalize_name ''./control.tar.gz'' = ''.control.tar.gz'' \<and>
   normalize_name ''control.tar.gz/'' = ''control.tar.gz''"
  by (simp add: normalize_name_def ReplaceAll_def path_Base_def HasPrefix_def)

section \<open>Comment lines of the control file\<close>

lemma control_lines_filter:
  "control_lines ls cur ctl =
     control_lines (filter (\<lambda>l. \<not> HasPrefix (TrimSpace l) ''#'') ls) cur ctl"
  by (induction ls arbitrary: cur ctl) (simp_all add: Let_def)

text \<open>
  Claim C8. Parsing a control file gives the same control object as parsing it with every
  line removed whose trimmed content starts with \<^verbatim>\<open>#\<close>: such a line makes no call
  on the control object and leaves the current field name as it is, also when it begins
  with white space and would otherwise continue the current field.
\<close>

theorem parseControlFile_drops_comments:
  "parseControlFile data c =
     c\<lparr>control :=
         control_lines (filter (\<lambda>l. \<not> HasPrefix (TrimSpace l) ''#'') (scan_lines data))
           [] (control c)\<rparr>"
  unfolding parseControlFile_def using control_lines_filter by simp

theorem parseControlFile_drops_comments_witness:
  "control (parseControlFile
      (''Description: a'' @ [CHR 0x0A] @ [CHR 0x09] @ '' # note'' @ [CHR 0x0A] @
       '' more'' @ [CHR 0x0A] @ ''#Version: 1'' @ [CHR 0x0A]) NewPackageFile) =
   [setField [''Description'', '' a''], addToField ''Description'' '' more'']"
proof -
  let ?data = "''Description: a'' @ [CHR 0x0A] @ [CHR 0x09] @ '' # note'' @ [CHR 0x0A] @
       '' more'' @ [CHR 0x0A] @ ''#Version: 1'' @ [CHR 0x0A]"
  let ?keep = "\<lambda>l. \<not> HasPrefix (TrimSpace l) ''#''"
  have sc: "scan_lines ?data =
      [''Description: a'', CHR 0x09 # '' # note'', '' more'', ''#Version: 1'']"
    by (simp add: scan_lines_def MaxScanTokenSize_def dropCR_def)
  have k1: "HasPrefix (TrimSpace ''Description: a'') ''#'' = False"
    by (simp add: TrimSpace_eval HasPrefix_def)
  have k2: "HasPrefix (TrimSpace (CHR 0x09 # '' # note'')) ''#'' = True"
    by (simp add: TrimSpace_eval HasPrefix_def)
  have k3: "HasPrefix (TrimSpace '' more'') ''#'' = False"
    by (simp add: TrimSpace_eval HasPrefix_def)
  have k4: "HasPrefix (TrimSpace ''#Version: 1'') ''#'' = True"
    by (simp add: TrimSpace_eval HasPrefix_def)
  have fl: "filter ?keep [''Description: a'', CHR 0x09 # '' # note'', '' more'', ''#Version: 1''] =
      [''Description: a'', '' more'']"
    by (simp only: filter.simps k1 k2 k3 k4 simp_thms if_True if_False)
  have p1: "HasPrefix ''Description: a'' '' '' = False"
    "HasPrefix ''Description: a'' [CHR 0x09] = False"
    "HasPrefix '' more'' '' '' = True"
    by (simp_all add: HasPrefix_def)
  have s1: "SplitN2 ''Description: a'' (CHR '':'') = [''Description'', '' a'']"
    by (simp add: SplitN2_def)
  have cl: "control_lines [''Description: a'', '' more''] [] (control NewPackageFile) =
      [setField [''Description'', '' a''], addToField ''Description'' '' more'']"
    by (simp add: k1 k3 p1 s1 NewPackageFile_def)
  have "control (parseControlFile ?data NewPackageFile) =
        control_lines (filter ?keep (scan_lines ?data)) [] (control NewPackageFile)"
    by (subst parseControlFile_drops_comments [of ?data NewPackageFile]) simp
  also have "\<dots> = control_lines [''Description: a'', '' more''] [] (control NewPackageFile)"
    by (simp only: sc fl)
  finally show ?thesis
    by (simp only: cl)
qed

section \<open>Dispatch on the compression suffix\<close>

lemma HasSuffix_last: "HasSuffix n x \<Longrightarrow> x \<noteq> [] \<Longrightarrow> last n = last x"
  unfolding HasSuffix_def
  by (metis last_drop length_greater_0_conv diff_less less_le_trans zero_less_diff le_neq_implies_less
      diff_is_0_eq' drop0 length_0_conv)

lemma suffixes_exclusive:
  "HasSuffix n ''.xz'' \<Longrightarrow> \<not> HasSuffix n ''.gz''"
  "HasSuffix n ''.bz2'' \<Longrightarrow> \<not> HasSuffix n ''.gz'' \<and> \<not> HasSuffix n ''.xz''"
  "HasSuffix n ''.lzma'' \<Longrightarrow> \<not> HasSuffix n ''.gz'' \<and> \<not> HasSuffix n ''.xz'' \<and> \<not> HasSuffix n ''.bz2''"
proof -
  show "HasSuffix n ''.xz'' \<Longrightarrow> \<not> HasSuffix n ''.gz''"
    by (auto simp: HasSuffix_def)
  show "HasSuffix n ''.bz2'' \<Longrightarrow> \<not> HasSuffix n ''.gz'' \<and> \<not> HasSuffix n ''.xz''"
    using HasSuffix_last [of n "''.bz2''"] HasSuffix_last [of n "''.gz''"]
      HasSuffix_last [of n "''.xz''"]
    by auto
  show "HasSuffix n ''.lzma'' \<Longrightarrow> \<not> HasSuffix n ''.gz'' \<and> \<not> HasSuffix n ''.xz'' \<and> \<not> HasSuffix n ''.bz2''"
    using HasSuffix_last [of n "''.lzma''"] HasSuffix_last [of n "''.gz''"]
      HasSuffix_last [of n "''.xz''"] HasSuffix_last [of n "''.bz2''"]
    by auto
qed

lemma checked_unGzip:
  "checked (unGzip E [] d) =
     (case gzip_decode E d of
        OpenFailed e \<Rightarrow> Panic (PanicError e)
      | ReadFailed e \<Rightarrow> Panic (PanicError e)
      | Decoded x \<Rightarrow> Done x)"
  by (simp add: checked_def unGzip_def then_do_def checkErr_def split: decoded.splits)

lemma checked_unXz:
  "checked (unXz E [] d) =
     (case xz_decode E d of
        OpenFailed e \<Rightarrow> Panic (PanicError e)
      | ReadFailed e \<Rightarrow> Panic (PanicError e)
      | Decoded x \<Rightarrow> Done x)"
  by (simp add: checked_def unXz_def then_do_def checkErr_def split: decoded.splits)

lemma checked_unBzip:
  "checked (unBzip E [] d) =
     (case bzip2_decode E d of Inl e \<Rightarrow> Panic (PanicError e) | Inr x \<Rightarrow> Done x)"
  by (simp add: checked_def unBzip_def then_do_def checkErr_def split: sum.splits)

lemma checked_unLzma:
  "checked (unLzma E [] d) =
     (case lzma_decode E d of Inl e \<Rightarrow> Panic (PanicError e) | Inr x \<Rightarrow> Done x)"
  by (simp add: checked_def unLzma_def then_do_def checkErr_def split: sum.splits)

lemmas checked_codecs = checked_unGzip checked_unXz checked_unBzip checked_unLzma

text \<open>
  Claim C6. The decompression step takes gzip for a name ending in \<^verbatim>\<open>.gz\<close>, xz for
  \<^verbatim>\<open>.xz\<close>, bzip2 for \<^verbatim>\<open>.bz2\<close> and the legacy LZMA for \<^verbatim>\<open>.lzma\<close>; no name has two
  of the suffixes, so the order of the tests decides nothing more. For a name with none
  of them the step gives the empty buffer and no error: the tar reader made on it has no
  entry, and the control or data member is walked without any change to the package.
\<close>

theorem decompressTar_dispatch:
  "(HasSuffix n ''.gz'' \<longrightarrow>
      decompressTar E n (Inr d) =
        (case gzip_decode E d of
           OpenFailed e \<Rightarrow> Panic (PanicError e)
         | ReadFailed e \<Rightarrow> Panic (PanicError e)
         | Decoded x \<Rightarrow> Done x)) \<and>
   (HasSuffix n ''.xz'' \<longrightarrow>
      decompressTar E n (Inr d) =
        (case xz_decode E d of
           OpenFailed e \<Rightarrow> Panic (PanicError e)
         | ReadFailed e \<Rightarrow> Panic (PanicError e)
         | Decoded x \<Rightarrow> Done x)) \<and>
   (HasSuffix n ''.bz2'' \<longrightarrow>
      decompressTar E n (Inr d) =
        (case bzip2_decode E d of Inl e \<Rightarrow> Panic (PanicError e) | Inr x \<Rightarrow> Done x)) \<and>
   (HasSuffix n ''.lzma'' \<longrightarrow>
      decompressTar E n (Inr d) =
        (case lzma_decode E d of Inl e \<Rightarrow> Panic (PanicError e) | Inr x \<Rightarrow> Done x)) \<and>
   (\<not> HasSuffix n ''.gz'' \<and> \<not> HasSuffix n ''.xz'' \<and> \<not> HasSuffix n ''.bz2'' \<and>
    \<not> HasSuffix n ''.lzma'' \<longrightarrow>
      decompressTar E n (Inr d) = Done [] \<and> tar_NewReader E [] = [] \<and>
      processControlFile E n (Inr d) c = Done c \<and>
      processDataFile E False h n (Inr d) c = Done c)"
proof (intro conjI impI)
  assume "HasSuffix n ''.gz''"
  then show "decompressTar E n (Inr d) =
        (case gzip_decode E d of
           OpenFailed e \<Rightarrow> Panic (PanicError e)
         | ReadFailed e \<Rightarrow> Panic (PanicError e)
         | Decoded x \<Rightarrow> Done x)"
    by (simp add: decompressTar_def checked_unGzip)
next
  assume "HasSuffix n ''.xz''"
  then show "decompressTar E n (Inr d) =
        (case xz_decode E d of
           OpenFailed e \<Rightarrow> Panic (PanicError e)
         | ReadFailed e \<Rightarrow> Panic (PanicError e)
         | Decoded x \<Rightarrow> Done x)"
    using suffixes_exclusive(1) [of n] by (simp add: decompressTar_def checked_unXz)
next
  assume "HasSuffix n ''.bz2''"
  then show "decompressTar E n (Inr d) =
        (case bzip2_decode E d of Inl e \<Rightarrow> Panic (PanicError e) | Inr x \<Rightarrow> Done x)"
    using suffixes_exclusive(2) [of n] by (simp add: decompressTar_def checked_unBzip)
next
  assume "HasSuffix n ''.lzma''"
  then show "decompressTar E n (Inr d) =
        (case lzma_decode E d of Inl e \<Rightarrow> Panic (PanicError e) | Inr x \<Rightarrow> Done x)"
    using suffixes_exclusive(3) [of n] by (simp add: decompressTar_def checked_unLzma)
next
  assume none: "\<not> HasSuffix n ''.gz'' \<and> \<not> HasSuffix n ''.xz'' \<and> \<not> HasSuffix n ''.bz2'' \<and>
    \<not> HasSuffix n ''.lzma''"
  then show dt: "decompressTar E n (Inr d) = Done []"
    by (simp add: decompressTar_def)
  show tr: "tar_NewReader E [] = []"
    by (simp add: tar_NewReader_def)
  show "processControlFile E n (Inr d) c = Done c"
    by (simp add: processControlFile_def dt tr then_do_def)
  show "processDataFile E False h n (Inr d) c = Done c"
    by (simp add: processDataFile_def dt tr then_do_def)
qed

theorem decompressTar_dispatch_witness:
  "decompressTar example_env ''control.tar.gz'' (Inr ''GZ./control:Package: x'') =
     Done ''./control:Package: x'' \<and>
   decompressTar example_env ''data.tar.xz'' (Inr ''GZ./control:Package: x'') =
     Panic (PanicError ''xz: data is truncated or corrupt'') \<and>
   decompressTar example_env ''data.tar.bz2'' (Inr ''./a:b'') = Done ''./a:b'' \<and>
   decompressTar example_env ''data.tar.lzma'' (Inr ''./a:b'') =
     Panic (PanicError ''lzma: corrupt stream'') \<and>
   decompressTar example_env ''control.tar.zst'' (Inr ''GZ./control:Package: x'') = Done [] \<and>
   processControlFile example_env ''control.tar.zst'' (Inr ''GZ./control:Package: x'')
     NewPackageFile = Done NewPackageFile"
proof -
  have s: "HasSuffix ''control.tar.gz'' ''.gz''" "HasSuffix ''data.tar.xz'' ''.xz''"
    "HasSuffix ''data.tar.bz2'' ''.bz2''" "HasSuffix ''data.tar.lzma'' ''.lzma''"
    "\<not> HasSuffix ''control.tar.zst'' ''.gz'' \<and> \<not> HasSuffix ''control.tar.zst'' ''.xz'' \<and>
     \<not> HasSuffix ''control.tar.zst'' ''.bz2'' \<and> \<not> HasSuffix ''control.tar.zst'' ''.lzma''"
    by (simp_all add: HasSuffix_def)
  have g: "gzip_decode example_env ''GZ./control:Package: x'' = Decoded ''./control:Package: x''"
    "xz_decode example_env ''GZ./control:Package: x'' = ReadFailed ''xz: data is truncated or corrupt''"
    "bzip2_decode example_env ''./a:b'' = Inr ''./a:b''"
    "lzma_decode example_env ''./a:b'' = Inl ''lzma: corrupt stream''"
    by (simp_all add: example_env_def HasPrefix_def)
  show ?thesis
    using decompressTar_dispatch [of "''control.tar.gz''" example_env "''GZ./control:Package: x''"]
      decompressTar_dispatch [of "''data.tar.xz''" example_env "''GZ./control:Package: x''"]
      decompressTar_dispatch [of "''data.tar.bz2''" example_env "''./a:b''"]
      decompressTar_dispatch [of "''data.tar.lzma''" example_env "''./a:b''"]
      decompressTar_dispatch [of "''control.tar.zst''" example_env "''GZ./control:Package: x''" NewPackageFile]
      s
    by (simp only: g decoded.case sum.case simp_thms)
qed

end
